theory Spec2Isabelle
  imports Complex_Main "HOL-Library.AList"
begin

section \<open>JavaScript numbers\<close>

text \<open>
  A \<^verbatim>\<open>Number\<close> is an IEEE 754 binary64 value: a finite value is kept as the
  rational it denotes, next to NaN and the two infinities (the sign of zero is not
  modelled). Every arithmetic result is rounded to the nearest double, a tie going to
  the even significand.
\<close>

datatype number =
    Num rat
  | NaN
  | PosInfinity
  | NegInfinity

text \<open>The number of binary digits of a natural number.\<close>

fun bitlen :: "nat \<Rightarrow> nat" where
  "bitlen n = (if n = 0 then 0 else Suc (bitlen (n div 2)))"

declare bitlen.simps [simp del]

definition pow2 :: "int \<Rightarrow> rat" where
  "pow2 k = (if 0 \<le> k then 2 ^ nat k else 1 / 2 ^ nat (- k))"

text \<open>The integer part of the binary logarithm of a positive rational.\<close>

definition ilog2 :: "rat \<Rightarrow> int" where
  "ilog2 x =
     (if 1 \<le> x then int (bitlen (nat \<lfloor>x\<rfloor>)) - 1
      else - int (bitlen (nat (\<lceil>1 / x\<rceil> - 1))))"

definition round_half_even :: "rat \<Rightarrow> int" where
  "round_half_even x =
     (let f = \<lfloor>x\<rfloor>; d = x - of_int f
      in if d < 1 / 2 then f else if 1 / 2 < d then f + 1 else if even f then f else f + 1)"

text \<open>
  Rounding a positive rational: a significand of 53 bits, the exponent of the last
  bit not below -1074 (subnormal values), overflow to infinity from \<open>2 ^ 1024\<close> on.
\<close>

definition nearest_positive :: "rat \<Rightarrow> number" where
  "nearest_positive x =
     (let e = max (- 1074) (ilog2 x - 52);
          v = of_int (round_half_even (x / pow2 e)) * pow2 e
      in if v < 2 ^ 1024 then Num v else PosInfinity)"

definition js_neg :: "number \<Rightarrow> number" where
  "js_neg a =
     (case a of
        Num x \<Rightarrow> Num (- x)
      | NaN \<Rightarrow> NaN
      | PosInfinity \<Rightarrow> NegInfinity
      | NegInfinity \<Rightarrow> PosInfinity)"

text \<open>The double nearest to a rational; a decimal literal of the source denotes it.\<close>

definition double :: "rat \<Rightarrow> number" where
  "double x =
     (if x = 0 then Num 0
      else if 0 < x then nearest_positive x
      else js_neg (nearest_positive (- x)))"

text \<open>The operators \<^verbatim>\<open>+\<close> and \<^verbatim>\<open>-\<close> on numbers.\<close>

fun js_add :: "number \<Rightarrow> number \<Rightarrow> number" where
  "js_add (Num x) (Num y) = double (x + y)"
| "js_add NaN b = NaN"
| "js_add a NaN = NaN"
| "js_add PosInfinity NegInfinity = NaN"
| "js_add NegInfinity PosInfinity = NaN"
| "js_add PosInfinity b = PosInfinity"
| "js_add a PosInfinity = PosInfinity"
| "js_add NegInfinity b = NegInfinity"
| "js_add a NegInfinity = NegInfinity"

definition js_sub :: "number \<Rightarrow> number \<Rightarrow> number" where
  "js_sub a b = js_add a (js_neg b)"

text \<open>
  The numeric value of an operand that may be \<^verbatim>\<open>undefined\<close> (\<open>None\<close>):
  \<^verbatim>\<open>undefined\<close> converts to NaN.
\<close>

definition ToNumber :: "number option \<Rightarrow> number" where
  "ToNumber v = (case v of None \<Rightarrow> NaN | Some n \<Rightarrow> n)"

section \<open>Appointment model (backend/src/models/Appointment.js)\<close>

text \<open>
  Only the fields read or written by the methods below are kept. A \<^verbatim>\<open>Date\<close>
  is its \<^verbatim>\<open>getTime()\<close> value, an integer count of milliseconds; an absent
  (undefined) field is \<open>None\<close>; the amount of an additional charge is not required
  by the schema and may be absent. The status is the string stored in the document.
  \<^verbatim>\<open>new Date()\<close> is a parameter \<open>now\<close> of every method that reads the clock.
  The minutes and hours computed from two dates are kept as exact rationals.
\<close>

record charge =
  description :: string
  amount :: "number option"

record cost =
  basePrice :: number
  additionalCharges :: "charge list"
  totalAmount :: number
  insuranceCovered :: number
  patientPayment :: number

record consultation =
  startTime :: "int option"
  endTime :: "int option"
  actualDuration :: "int option"

record appointment =
  appointmentDateTime :: int
  status :: string
  cost :: cost
  consultation :: consultation

datatype error =
    Error string
  | TypeError
  | StoreError
  | MongoServerError int string string
  | MissingSchemaError
  | ValidationError "string list"

text \<open>The values the schema's \<^verbatim>\<open>enum\<close> admits for \<^verbatim>\<open>status\<close>.\<close>

definition statusEnum :: "string list" where
  "statusEnum = [''scheduled'', ''confirmed'', ''in-progress'', ''completed'',
                 ''canceled'', ''no-show'', ''rescheduled'']"

text \<open>\<^verbatim>\<open>Math.round\<close>: the nearest integer, a tie going up.\<close>

definition Math_round :: "rat \<Rightarrow> int" where
  "Math_round x = \<lfloor>x + 1 / 2\<rfloor>"

text \<open>
  \<^verbatim>\<open>canBeCanceled\<close> and \<^verbatim>\<open>canBeRescheduled\<close>:
  \<^verbatim>\<open>hoursUntilAppointment = (appointmentTime.getTime() - now.getTime()) / (1000 * 3600)\<close>.
\<close>

definition hoursUntilAppointment :: "int \<Rightarrow> appointment \<Rightarrow> rat" where
  "hoursUntilAppointment now a = of_int (appointmentDateTime a - now) / (1000 * 3600)"

definition canBeCanceled :: "int \<Rightarrow> appointment \<Rightarrow> bool" where
  "canBeCanceled now a \<longleftrightarrow>
     hoursUntilAppointment now a \<ge> 24 \<and> status a \<in> set [''scheduled'', ''confirmed'']"

definition canBeRescheduled :: "int \<Rightarrow> appointment \<Rightarrow> bool" where
  "canBeRescheduled now a \<longleftrightarrow>
     hoursUntilAppointment now a \<ge> 2 \<and> status a \<in> set [''scheduled'', ''confirmed'']"

text \<open>
  \<^verbatim>\<open>calculateTotalCost\<close>: the \<^verbatim>\<open>forEach\<close> adds the charges to the running
  total from left to right, each \<^verbatim>\<open>total += charge.amount\<close> a rounded addition;
  the method writes two fields and returns the total.
\<close>

definition calculateTotalCost :: "appointment \<Rightarrow> number \<times> appointment" where
  "calculateTotalCost a =
     (let total = foldl (\<lambda>t ch. js_add t (ToNumber (amount ch)))
                    (basePrice (cost a)) (additionalCharges (cost a))
      in (total,
          a\<lparr>cost := (cost a)\<lparr>totalAmount := total,
                               patientPayment := js_sub total (insuranceCovered (cost a))\<rparr>\<rparr>))"

text \<open>
  What a document gets from Mongoose when it is saved: the change tracking
  (\<^verbatim>\<open>isModified(path)\<close>), the validation that runs as the first pre-save hook
  (the error it reports, if any), and the write to the database (the error it
  reports, if any). The three are parameters of the model.
\<close>

record mongoose =
  isModified :: "string \<Rightarrow> bool"
  validate :: "appointment \<Rightarrow> error option"
  persist :: "appointment \<Rightarrow> error option"

text \<open>The \<^verbatim>\<open>pre('save')\<close> hook of the schema.\<close>

definition pre_save :: "mongoose \<Rightarrow> appointment \<Rightarrow> appointment" where
  "pre_save m a =
     (if isModified m ''cost.basePrice'' \<or> isModified m ''cost.additionalCharges''
         \<or> isModified m ''cost.insuranceCovered''
      then snd (calculateTotalCost a) else a)"

text \<open>
  \<^verbatim>\<open>save()\<close>: validation first; if it fails the promise rejects and the
  schema's hook does not run. Otherwise the hook runs and the document is written;
  a failing write rejects the promise with the hook's changes left in the document.
  The second component is the document in memory afterwards.
\<close>

definition save :: "mongoose \<Rightarrow> appointment \<Rightarrow> (error + unit) \<times> appointment" where
  "save m a =
     (case validate m a of
        Some e \<Rightarrow> (Inl e, a)
      | None \<Rightarrow>
          let a' = pre_save m a
          in (case persist m a' of
                Some e \<Rightarrow> (Inl e, a')
              | None \<Rightarrow> (Inr (), a')))"

definition validTransitions :: "(string \<times> string list) list" where
  "validTransitions =
     [(''scheduled'', [''confirmed'', ''canceled'', ''rescheduled'']),
      (''confirmed'', [''in-progress'', ''canceled'', ''no-show'', ''rescheduled'']),
      (''in-progress'', [''completed'', ''canceled'']),
      (''completed'', []),
      (''canceled'', []),
      (''no-show'', []),
      (''rescheduled'', [''scheduled''])]"

text \<open>
  The assignments of \<^verbatim>\<open>updateStatus\<close> between the test of the table and the
  call of \<^verbatim>\<open>save\<close>. A \<^verbatim>\<open>Date\<close> object is always truthy, so the test of
  \<^verbatim>\<open>this.consultation.startTime\<close> is a test for presence.
\<close>

definition transition :: "int \<Rightarrow> string \<Rightarrow> appointment \<Rightarrow> appointment" where
  "transition now newStatus a =
     (let a1 = a\<lparr>status := newStatus\<rparr>
      in if newStatus = ''in-progress''
         then a1\<lparr>consultation := (consultation a1)\<lparr>startTime := Some now\<rparr>\<rparr>
         else if newStatus = ''completed''
         then
           let a3 = a1\<lparr>consultation := (consultation a1)\<lparr>endTime := Some now\<rparr>\<rparr>
           in (case startTime (consultation a3) of
                 Some s \<Rightarrow>
                   a3\<lparr>consultation := (consultation a3)
                        \<lparr>actualDuration := Some (Math_round (of_int (now - s) / (1000 * 60)))\<rparr>\<rparr>
               | None \<Rightarrow> a3)
         else a1)"

text \<open>
  \<^verbatim>\<open>updateStatus(newStatus)\<close>. The result pairs the outcome (\<open>Inl\<close>: the
  exception thrown, or the error the promise returned by \<^verbatim>\<open>save\<close> rejects with)
  with the document as the call leaves it. A status outside the table makes
  \<^verbatim>\<open>validTransitions[this.status]\<close> undefined, and the call of
  \<^verbatim>\<open>includes\<close> on it a TypeError.
\<close>

definition updateStatus ::
  "int \<Rightarrow> mongoose \<Rightarrow> string \<Rightarrow> appointment \<Rightarrow> (error + unit) \<times> appointment" where
  "updateStatus now m newStatus a =
     (case map_of validTransitions (status a) of
        None \<Rightarrow> (Inl TypeError, a)
      | Some allowed \<Rightarrow>
          if newStatus \<notin> set allowed
          then (Inl (Error (''Cannot transition from '' @ status a @ '' to '' @ newStatus)), a)
          else save m (transition now newStatus a))"

text \<open>
  The transition table as the specification lists it, one (from, to) pair per
  entry.
\<close>

definition spec_transition_table :: "(string \<times> string) list" where
  "spec_transition_table =
     [(''scheduled'', ''confirmed''), (''scheduled'', ''canceled''), (''scheduled'', ''rescheduled''),
      (''confirmed'', ''in-progress''), (''confirmed'', ''canceled''), (''confirmed'', ''no-show''),
      (''confirmed'', ''rescheduled''),
      (''in-progress'', ''completed''), (''in-progress'', ''canceled''),
      (''rescheduled'', ''scheduled'')]"

text \<open>
  The validators the schema declares for the modelled paths (the \<^verbatim>\<open>enum\<close> of
  \<^verbatim>\<open>status\<close> and the \<^verbatim>\<open>min: 0\<close> of four cost paths, with their messages),
  run on the paths selected for validation: Mongoose validates the paths of a
  document that were loaded from the database, modified or filled by a default. The
  closed instances below use it as the validation of a save.
\<close>

definition min_ok :: "number \<Rightarrow> bool" where
  "min_ok v = (case v of Num x \<Rightarrow> 0 \<le> x | PosInfinity \<Rightarrow> True | NaN \<Rightarrow> False
               | NegInfinity \<Rightarrow> False)"

definition schema_validate :: "(string \<Rightarrow> bool) \<Rightarrow> appointment \<Rightarrow> error option" where
  "schema_validate selected a =
     (let failures =
        (if selected ''status'' \<and> status a \<notin> set statusEnum
         then [''status is not a valid enum value''] else [])
        @ (if selected ''cost.basePrice'' \<and> \<not> min_ok (basePrice (cost a))
           then [''Base price cannot be negative''] else [])
        @ (if selected ''cost.totalAmount'' \<and> \<not> min_ok (totalAmount (cost a))
           then [''Total amount cannot be negative''] else [])
        @ (if selected ''cost.insuranceCovered'' \<and> \<not> min_ok (insuranceCovered (cost a))
           then [''Insurance covered amount cannot be negative''] else [])
        @ (if selected ''cost.patientPayment'' \<and> \<not> min_ok (patientPayment (cost a))
           then [''Patient payment cannot be negative''] else [])
      in if failures = [] then None else Some (ValidationError failures))"


section \<open>Cache store (backend/src/utils/cache.js)\<close>

text \<open>
  A JSON value. The store keeps the text \<^verbatim>\<open>JSON.stringify\<close> produces and
  \<^verbatim>\<open>JSON.parse\<close> reads it back; the model keeps the value that text denotes,
  so the pair is the identity on what is stored. An object is the list of its
  properties in order (the move of integer-like property names to the front that
  JavaScript performs is not modelled). \<^verbatim>\<open>undefined\<close> is not distinguished
  from \<^verbatim>\<open>null\<close>.
\<close>

datatype json =
    JNull
  | JBool bool
  | JNum rat
  | JStr string
  | JArr "json list"
  | JObj "(string \<times> json) list"

text \<open>JavaScript truthiness, as tested by \<^verbatim>\<open>if (x)\<close> and \<^verbatim>\<open>x && ...\<close>.\<close>

fun truthy :: "json \<Rightarrow> bool" where
  "truthy JNull = False"
| "truthy (JBool b) = b"
| "truthy (JNum n) = (n \<noteq> 0)"
| "truthy (JStr s) = (s \<noteq> [])"
| "truthy (JArr xs) = True"
| "truthy (JObj kvs) = True"

text \<open>
  The Redis client: the entries of the server (key, stored value, time to live in
  seconds if one is set), and two parameters standing for the server and the
  connection: \<open>rejects\<close> tells which commands fail (the promise of the client call
  rejects), \<open>matches pattern key\<close> is the server's glob match used by
  \<^verbatim>\<open>KEYS\<close>. The passing of time, and with it the expiry of entries, is not
  modelled.
\<close>

datatype command =
    Get string
  | SetEx string int json
  | Del string
  | Keys string
  | Incr string
  | Expire string int

record redis =
  entries :: "(string \<times> json \<times> int option) list"
  rejects :: "command \<Rightarrow> bool"
  matches :: "string \<Rightarrow> string \<Rightarrow> bool"

definition client_get :: "redis \<Rightarrow> string \<Rightarrow> error + json option" where
  "client_get c k =
     (if rejects c (Get k) then Inl StoreError
      else Inr (map_option fst (map_of (entries c) k)))"

definition client_setEx :: "redis \<Rightarrow> string \<Rightarrow> int \<Rightarrow> json \<Rightarrow> error + redis" where
  "client_setEx c k ttl v =
     (if rejects c (SetEx k ttl v) then Inl StoreError
      else Inr (c\<lparr>entries := AList.update k (v, Some ttl) (entries c)\<rparr>))"

definition client_del :: "redis \<Rightarrow> string \<Rightarrow> error + redis" where
  "client_del c k =
     (if rejects c (Del k) then Inl StoreError
      else Inr (c\<lparr>entries := AList.delete k (entries c)\<rparr>))"

definition client_keys :: "redis \<Rightarrow> string \<Rightarrow> error + string list" where
  "client_keys c pattern =
     (if rejects c (Keys pattern) then Inl StoreError
      else Inr (filter (matches c pattern) (map fst (entries c))))"

text \<open>
  \<^verbatim>\<open>INCR\<close>: a missing key counts from 0; a value that is not an integer is an
  error reply. The time to live of the key is kept.
\<close>

definition client_incr :: "redis \<Rightarrow> string \<Rightarrow> error + int \<times> redis" where
  "client_incr c k =
     (if rejects c (Incr k) then Inl StoreError
      else case map_of (entries c) k of
        None \<Rightarrow> Inr (1, c\<lparr>entries := AList.update k (JNum 1, None) (entries c)\<rparr>)
      | Some (JNum n, t) \<Rightarrow>
          if n = of_int \<lfloor>n\<rfloor>
          then Inr (\<lfloor>n\<rfloor> + 1,
                    c\<lparr>entries := AList.update k (JNum (of_int (\<lfloor>n\<rfloor> + 1)), t) (entries c)\<rparr>)
          else Inl StoreError
      | Some (v, t) \<Rightarrow> Inl StoreError)"

definition client_expire :: "redis \<Rightarrow> string \<Rightarrow> int \<Rightarrow> error + redis" where
  "client_expire c k seconds =
     (if rejects c (Expire k seconds) then Inl StoreError
      else case map_of (entries c) k of
        None \<Rightarrow> Inr c
      | Some (v, t) \<Rightarrow> Inr (c\<lparr>entries := AList.update k (v, Some seconds) (entries c)\<rparr>))"

text \<open>
  \<^verbatim>\<open>CacheService\<close>. Each method is an async function: its result is \<open>Inr\<close> of
  the value the promise resolves to, or \<open>Inl\<close> of the error it rejects with. The
  methods that write return the service with the client's new state as well.
\<close>

record cache_service =
  client :: "redis option"
  isConnected :: bool

definition CacheService_get :: "cache_service \<Rightarrow> string \<Rightarrow> error + json" where
  "CacheService_get cs key =
     (case client cs of
        None \<Rightarrow> Inr JNull
      | Some c \<Rightarrow>
          if \<not> isConnected cs then Inr JNull
          else case client_get c key of
            Inl e \<Rightarrow> Inr JNull
          | Inr None \<Rightarrow> Inr JNull
          | Inr (Some data) \<Rightarrow> Inr data)"

definition CacheService_set ::
  "cache_service \<Rightarrow> string \<Rightarrow> json \<Rightarrow> int \<Rightarrow> (error + bool) \<times> cache_service" where
  "CacheService_set cs key val expiration =
     (case client cs of
        None \<Rightarrow> (Inr False, cs)
      | Some c \<Rightarrow>
          if \<not> isConnected cs then (Inr False, cs)
          else case client_setEx c key expiration val of
            Inl e \<Rightarrow> (Inr False, cs)
          | Inr c' \<Rightarrow> (Inr True, cs\<lparr>client := Some c'\<rparr>))"

definition CacheService_del :: "cache_service \<Rightarrow> string \<Rightarrow> (error + bool) \<times> cache_service" where
  "CacheService_del cs key =
     (case client cs of
        None \<Rightarrow> (Inr False, cs)
      | Some c \<Rightarrow>
          if \<not> isConnected cs then (Inr False, cs)
          else case client_del c key of
            Inl e \<Rightarrow> (Inr False, cs)
          | Inr c' \<Rightarrow> (Inr True, cs\<lparr>client := Some c'\<rparr>))"

definition CacheService_keys :: "cache_service \<Rightarrow> string \<Rightarrow> error + string list" where
  "CacheService_keys cs pattern =
     (case client cs of
        None \<Rightarrow> Inr []
      | Some c \<Rightarrow>
          if \<not> isConnected cs then Inr []
          else case client_keys c pattern of
            Inl e \<Rightarrow> Inr []
          | Inr ks \<Rightarrow> Inr ks)"

text \<open>
  What the code reads from its environment: \<^verbatim>\<open>process.env.NODE_ENV\<close>, the
  clock (\<^verbatim>\<open>Date.now()\<close>, and \<^verbatim>\<open>new Date().toISOString()\<close>), and the
  Base64 text of the serialised query used by the default key generator.
\<close>

record runtime =
  NODE_ENV :: "string option"
  clock :: int
  isoString :: string
  queryBase64 :: "(string \<times> string) list \<Rightarrow> string"

fun join :: "string \<Rightarrow> string list \<Rightarrow> string" where
  "join sep [] = []"
| "join sep [x] = x"
| "join sep (x # y # ys) = x @ sep @ join sep (y # ys)"

definition generateKey ::
  "runtime \<Rightarrow> string \<Rightarrow> string \<Rightarrow> (string \<times> string) list \<Rightarrow> string" where
  "generateKey rt type identifier params =
     (let paramStr = (if length params > 0
                      then '':'' @ join ''&'' (map (\<lambda>(k, v). k @ ''='' @ v) params)
                      else []);
          env = (case NODE_ENV rt of
                   None \<Rightarrow> ''development''
                 | Some e \<Rightarrow> if e = [] then ''development'' else e)
      in env @ '':'' @ type @ '':'' @ identifier @ paramStr)"

text \<open>
  \<^verbatim>\<open>incrementRateLimit\<close>. When \<^verbatim>\<open>expire\<close> fails the increment has
  already been applied by the server.
\<close>

definition incrementRateLimit ::
  "runtime \<Rightarrow> cache_service \<Rightarrow> string \<Rightarrow> int \<Rightarrow> (error + int) \<times> cache_service" where
  "incrementRateLimit rt cs identifier window =
     (case client cs of
        None \<Rightarrow> (Inr 1, cs)
      | Some c \<Rightarrow>
          if \<not> isConnected cs then (Inr 1, cs)
          else
            let key = generateKey rt ''ratelimit'' identifier []
            in case client_incr c key of
                 Inl e \<Rightarrow> (Inr 1, cs)
               | Inr (current, c1) \<Rightarrow>
                   if current = 1
                   then (case client_expire c1 key window of
                           Inl e \<Rightarrow> (Inr 1, cs\<lparr>client := Some c1\<rparr>)
                         | Inr c2 \<Rightarrow> (Inr current, cs\<lparr>client := Some c2\<rparr>))
                   else (Inr current, cs\<lparr>client := Some c1\<rparr>))"

text \<open>
  The three ways the specification's section 4.1 lists for the store to be
  unreachable for a command: not connected, no client, or the command fails.
\<close>

definition store_unreachable :: "cache_service \<Rightarrow> command \<Rightarrow> bool" where
  "store_unreachable cs cmd \<longleftrightarrow>
     \<not> isConnected cs \<or> (case client cs of None \<Rightarrow> True | Some c \<Rightarrow> rejects c cmd)"

section \<open>Cache middleware (the middleware module that requires ../utils/cache)\<close>

text \<open>
  A request, with the fields the middleware reads (\<open>httpMethod\<close> is \<^verbatim>\<open>req.method\<close>, \<open>user\<close> is
  \<^verbatim>\<open>req.user?.id\<close>). A handler answers a request through one of the three
  response methods; its own reads and writes of the database are not modelled.
\<close>

record request =
  httpMethod :: string
  path :: string
  query :: "(string \<times> string) list"
  user :: "string option"
  ip :: string

datatype reply =
    ReplyJson int json
  | ReplySend int
  | ReplyEnd int

datatype header =
    XCache string
  | XCacheKey string
  | CacheControlMaxAge int
  | XRateLimitLimit int
  | XRateLimitRemaining int
  | XRateLimitReset int

record response =
  statusCode :: int
  headers :: "header list"
  body :: json

record cache_options =
  keyGenerator :: "(request \<Rightarrow> error + string) option"
  expiration :: int
  condition :: "request \<Rightarrow> bool"
  onHit :: "request \<Rightarrow> string \<Rightarrow> error option"
  onMiss :: "request \<Rightarrow> string \<Rightarrow> error option"
  skipCache :: bool

definition generateDefaultKey :: "runtime \<Rightarrow> request \<Rightarrow> string" where
  "generateDefaultKey rt req =
     (let userId = (case user req of
                      None \<Rightarrow> ''anonymous''
                    | Some u \<Rightarrow> if u = [] then ''anonymous'' else u)
      in httpMethod req @ '':'' @ path req @ '':'' @ userId @ '':'' @ queryBase64 rt (query req))"

text \<open>\<^verbatim>\<open>String(n)\<close> for an array index.\<close>

fun decimal :: "nat \<Rightarrow> string" where
  "decimal n =
     (if n < 10 then [char_of (48 + n)]
      else decimal (n div 10) @ [char_of (48 + n mod 10)])"

text \<open>The own enumerable properties that \<^verbatim>\<open>...cachedData\<close> copies.\<close>

fun spread :: "json \<Rightarrow> (string \<times> json) list" where
  "spread (JObj kvs) = kvs"
| "spread (JArr xs) = zip (map decimal [0..<length xs]) xs"
| "spread (JStr s) = zip (map decimal [0..<length s]) (map (\<lambda>c. JStr [c]) s)"
| "spread v = []"

text \<open>
  Copying properties into an object literal: a name already present keeps its
  place and takes the new value, a new name goes to the end. JavaScript lists the
  properties whose names are array indices before all others; the model keeps them
  where they were added.
\<close>

definition assign :: "(string \<times> json) list \<Rightarrow> (string \<times> json) list \<Rightarrow> (string \<times> json) list" where
  "assign target src = fold (\<lambda>(k, v). AList.update k v) src target"

definition hit_body :: "runtime \<Rightarrow> json \<Rightarrow> json" where
  "hit_body rt cachedData =
     JObj (assign [(''success'', JBool True), (''cached'', JBool True),
                   (''timestamp'', JStr (isoString rt))]
                  (spread cachedData))"

text \<open>\<^verbatim>\<open>data.success\<close>: a property only an object can have here.\<close>

fun success_property :: "json \<Rightarrow> json option" where
  "success_property (JObj kvs) = map_of kvs ''success''"
| "success_property v = None"

text \<open>\<^verbatim>\<open>data && data.success !== false && res.statusCode < 400\<close>.\<close>

definition successful :: "json \<Rightarrow> int \<Rightarrow> bool" where
  "successful data code \<longleftrightarrow>
     truthy data \<and> success_property data \<noteq> Some (JBool False) \<and> code < 400"

text \<open>
  What became of a request that went through \<^verbatim>\<open>cacheMiddleware\<close>:
  \<open>Passed\<close>: \<^verbatim>\<open>next()\<close> was called with the response object untouched and the
  handler replied; \<open>Hit\<close>: the middleware answered from the cache and the handler was
  not called; \<open>Miss\<close>: the handler ran and replied through the patched
  \<^verbatim>\<open>res.json\<close>; \<open>MissOther\<close>: the handler ran and replied through another
  method; \<open>Raised\<close>: the \<^verbatim>\<open>onMiss\<close> callback threw inside the patched method.
\<close>

datatype outcome =
    Passed reply
  | Hit response
  | Miss response
  | MissOther reply
  | Raised error

text \<open>
  \<^verbatim>\<open>cacheMiddleware(options)(req, res, next)\<close> followed by the handler. The
  \<^verbatim>\<open>cacheService.set\<close> call of the patched \<^verbatim>\<open>res.json\<close> is not awaited
  in the source; the model applies its effect on the store at the point of the
  call. Every exception inside the \<^verbatim>\<open>try\<close> block leads to \<^verbatim>\<open>next()\<close>.
\<close>

definition cacheMiddleware ::
  "cache_options \<Rightarrow> runtime \<Rightarrow> (request \<Rightarrow> reply) \<Rightarrow> request \<Rightarrow> cache_service
     \<Rightarrow> outcome \<times> cache_service" where
  "cacheMiddleware opts rt handler req cs =
     (if skipCache opts \<or> \<not> condition opts req then (Passed (handler req), cs)
      else
        case (case keyGenerator opts of
                Some g \<Rightarrow> g req
              | None \<Rightarrow> Inr (generateDefaultKey rt req)) of
          Inl e \<Rightarrow> (Passed (handler req), cs)
        | Inr cacheKey \<Rightarrow>
            (case CacheService_get cs cacheKey of
               Inl e \<Rightarrow> (Passed (handler req), cs)
             | Inr cachedData \<Rightarrow>
                 if truthy cachedData
                 then (case onHit opts req cacheKey of
                         Some e \<Rightarrow> (Passed (handler req), cs)
                       | None \<Rightarrow>
                           (Hit \<lparr>statusCode = 200,
                                 headers = [XCache ''HIT'', XCacheKey cacheKey,
                                            CacheControlMaxAge (expiration opts)],
                                 body = hit_body rt cachedData\<rparr>, cs))
                 else (case handler req of
                         ReplyJson code data \<Rightarrow>
                           let cs1 = (if successful data code
                                      then snd (CacheService_set cs cacheKey data (expiration opts))
                                      else cs)
                           in (case onMiss opts req cacheKey of
                                 Some e \<Rightarrow> (Raised e, cs1)
                               | None \<Rightarrow>
                                   (Miss \<lparr>statusCode = code,
                                          headers = [XCache ''MISS'', XCacheKey cacheKey,
                                                     CacheControlMaxAge (expiration opts)],
                                          body = data\<rparr>, cs1))
                       | other \<Rightarrow> (MissOther other, cs))))"

text \<open>
  \<^verbatim>\<open>invalidateCache(patterns)\<close>: the argument is an array of patterns, a
  function of the request, or a single pattern.
\<close>

datatype patterns =
    PatArray "string list"
  | PatFun "request \<Rightarrow> error + string list"
  | PatString string

text \<open>
  The two nested \<^verbatim>\<open>for\<close> loops of \<^verbatim>\<open>invalidatePatterns\<close>. An exception
  would leave the loops for the \<^verbatim>\<open>catch\<close>, which only logs: the first component
  is the exception, if any, the second the service as the loops leave it.
\<close>

fun del_each :: "cache_service \<Rightarrow> string list \<Rightarrow> error option \<times> cache_service" where
  "del_each cs [] = (None, cs)"
| "del_each cs (key # keys) =
     (case CacheService_del cs key of
        (Inl e, cs') \<Rightarrow> (Some e, cs')
      | (Inr b, cs') \<Rightarrow> del_each cs' keys)"

fun invalidate_each :: "cache_service \<Rightarrow> string list \<Rightarrow> error option \<times> cache_service" where
  "invalidate_each cs [] = (None, cs)"
| "invalidate_each cs (pattern # ps) =
     (case CacheService_keys cs pattern of
        Inl e \<Rightarrow> (Some e, cs)
      | Inr keys \<Rightarrow>
          (case del_each cs keys of
             (Some e, cs') \<Rightarrow> (Some e, cs')
           | (None, cs') \<Rightarrow> invalidate_each cs' ps))"

definition invalidatePatterns :: "patterns \<Rightarrow> request \<Rightarrow> cache_service \<Rightarrow> cache_service" where
  "invalidatePatterns pats req cs =
     (case pats of
        PatArray ps \<Rightarrow> snd (invalidate_each cs ps)
      | PatFun f \<Rightarrow> (case f req of Inl e \<Rightarrow> cs | Inr ps \<Rightarrow> snd (invalidate_each cs ps))
      | PatString p \<Rightarrow> snd (invalidate_each cs [p]))"

text \<open>
  \<^verbatim>\<open>invalidateCache(patterns)(req, res, next)\<close> followed by the handler. Each
  of the patched \<^verbatim>\<open>res.json\<close>, \<^verbatim>\<open>res.send\<close> and \<^verbatim>\<open>res.end\<close>
  calls the original method and then, on its own test, starts
  \<^verbatim>\<open>invalidatePatterns\<close>. Express implements \<^verbatim>\<open>res.json\<close> by a call of
  \<^verbatim>\<open>this.send\<close> and \<^verbatim>\<open>res.send\<close> by a call of \<^verbatim>\<open>this.end\<close>, so the
  patched methods nest: the innermost finishes first. The runs of
  \<^verbatim>\<open>invalidatePatterns\<close> are started without being awaited; the model runs each
  to its end, one after the other, before anything else happens.
\<close>

definition patched_end :: "patterns \<Rightarrow> request \<Rightarrow> int \<Rightarrow> cache_service \<Rightarrow> cache_service" where
  "patched_end pats req code cs =
     (if code < 400 then invalidatePatterns pats req cs else cs)"

definition patched_send :: "patterns \<Rightarrow> request \<Rightarrow> int \<Rightarrow> cache_service \<Rightarrow> cache_service" where
  "patched_send pats req code cs =
     (let cs1 = patched_end pats req code cs
      in if code < 400 then invalidatePatterns pats req cs1 else cs1)"

definition patched_json ::
  "patterns \<Rightarrow> request \<Rightarrow> int \<Rightarrow> json \<Rightarrow> cache_service \<Rightarrow> cache_service" where
  "patched_json pats req code data cs =
     (let cs1 = patched_send pats req code cs
      in if successful data code then invalidatePatterns pats req cs1 else cs1)"

definition invalidateCache ::
  "patterns \<Rightarrow> (request \<Rightarrow> reply) \<Rightarrow> request \<Rightarrow> cache_service \<Rightarrow> reply \<times> cache_service" where
  "invalidateCache pats handler req cs =
     (case handler req of
        ReplyJson code data \<Rightarrow> (ReplyJson code data, patched_json pats req code data cs)
      | ReplySend code \<Rightarrow> (ReplySend code, patched_send pats req code cs)
      | ReplyEnd code \<Rightarrow> (ReplyEnd code, patched_end pats req code cs))"

definition invalidateServiceCache ::
  "(request \<Rightarrow> reply) \<Rightarrow> request \<Rightarrow> cache_service \<Rightarrow> reply \<times> cache_service" where
  "invalidateServiceCache = invalidateCache (PatArray [''*:services:*'', ''*:appointments:*''])"

text \<open>
  \<^verbatim>\<open>rateLimitMiddleware(options)\<close>. The options
  \<^verbatim>\<open>skipSuccessfulRequests\<close> and \<^verbatim>\<open>skipFailedRequests\<close> are never read.
  The reset header is built with \<^verbatim>\<open>toISOString\<close>, which throws a RangeError
  for a time more than 8640000000000000 ms away from the epoch; the headers are then
  not set and the \<^verbatim>\<open>catch\<close> calls \<^verbatim>\<open>next()\<close>.
\<close>

record rate_options =
  windowMs :: int
  maxRequests :: int
  rateKeyGenerator :: "request \<Rightarrow> error + string"
  onLimitReached :: "request \<Rightarrow> string \<Rightarrow> error option"

definition default_rate_options :: rate_options where
  "default_rate_options =
     \<lparr>windowMs = 15 * 60 * 1000, maxRequests = 100,
      rateKeyGenerator = (\<lambda>req. Inr (ip req)), onLimitReached = (\<lambda>req key. None)\<rparr>"

datatype rate_outcome =
    Next "header list"
  | Rejected response

definition rateLimitMiddleware ::
  "rate_options \<Rightarrow> runtime \<Rightarrow> request \<Rightarrow> cache_service \<Rightarrow> rate_outcome \<times> cache_service" where
  "rateLimitMiddleware opts rt req cs =
     (case rateKeyGenerator opts req of
        Inl e \<Rightarrow> (Next [], cs)
      | Inr key \<Rightarrow>
          let windowSeconds = windowMs opts div 1000
          in case incrementRateLimit rt cs key windowSeconds of
               (Inl e, cs') \<Rightarrow> (Next [], cs')
             | (Inr currentCount, cs') \<Rightarrow>
                 let hs = [XRateLimitLimit (maxRequests opts),
                           XRateLimitRemaining (max 0 (maxRequests opts - currentCount)),
                           XRateLimitReset (clock rt + windowMs opts)]
                 in if \<bar>clock rt + windowMs opts\<bar> > 8640000000000000 then (Next [], cs')
                    else if currentCount > maxRequests opts
                    then (case onLimitReached opts req key of
                            Some e \<Rightarrow> (Next hs, cs')
                          | None \<Rightarrow>
                              (Rejected \<lparr>statusCode = 429, headers = hs,
                                         body = JObj [(''success'', JBool False),
                                                      (''message'', JStr ''Too many requests''),
                                                      (''retryAfter'', JNum (of_int (windowMs opts)))]\<rparr>,
                               cs'))
                    else (Next hs, cs'))"

section \<open>Database optimizer (backend/src/utils/dbOptimization.js)\<close>







































text \<open>
  Sample documents and save parameters for the closed instances below. In
  \<open>appt2\<close> the amounts are the doubles of the literals \<^verbatim>\<open>0.1\<close>,
  \<^verbatim>\<open>0.2\<close> and \<^verbatim>\<open>0.3\<close>; in \<open>appt3\<close> the charge has no amount. The
  save parameters validate every modelled path and accept every write; they differ
  in the path marked as modified.
\<close>

definition appt0 :: appointment where
  "appt0 = \<lparr>appointmentDateTime = 30 * 3600000, status = ''confirmed'',
     cost = \<lparr>basePrice = Num 100,
             additionalCharges = [\<lparr>description = ''lab'', amount = Some (Num 20)\<rparr>],
             totalAmount = Num 0, insuranceCovered = Num 30, patientPayment = Num 0\<rparr>,
     consultation = \<lparr>startTime = None, endTime = None, actualDuration = None\<rparr>\<rparr>"

definition appt1 :: appointment where
  "appt1 = \<lparr>appointmentDateTime = 30 * 3600000, status = ''in-progress'',
     cost = \<lparr>basePrice = Num 50, additionalCharges = [],
             totalAmount = Num 50, insuranceCovered = Num 80, patientPayment = Num 0\<rparr>,
     consultation = \<lparr>startTime = Some 1000, endTime = None, actualDuration = None\<rparr>\<rparr>"



definition mongoose_ok :: mongoose where
  "mongoose_ok = \<lparr>isModified = (\<lambda>p. p = ''status''),
                   validate = schema_validate (\<lambda>p. True),
                   persist = (\<lambda>a. None)\<rparr>"

definition mongoose_cost :: mongoose where
  "mongoose_cost = \<lparr>isModified = (\<lambda>p. p = ''cost.insuranceCovered''),
                     validate = schema_validate (\<lambda>p. True),
                     persist = (\<lambda>a. None)\<rparr>"

text \<open>
  Sample data for the closed instances below: a glob match for patterns made of
  literal characters and \<open>*\<close>, a store with two entries, and services that are
  connected, disconnected, without a client, and with a client whose every command
  fails.
\<close>

fun glob :: "string \<Rightarrow> string \<Rightarrow> bool" where
  "glob [] [] = True"
| "glob [] (c # cs) = False"
| "glob (p # ps) [] = (p = CHR ''*'' \<and> glob ps [])"
| "glob (p # ps) (c # cs) =
     (if p = CHR ''*'' then glob ps (c # cs) \<or> glob (p # ps) cs else p = c \<and> glob ps cs)"

definition redis0 :: redis where
  "redis0 = \<lparr>entries = [(''development:services:list:page=1'', JObj [(''success'', JBool True)], Some 300),
                        (''development:user:42'', JStr ''u'', Some 1800)],
             rejects = (\<lambda>cmd. False), matches = glob\<rparr>"

definition cs_up :: cache_service where "cs_up = \<lparr>client = Some redis0, isConnected = True\<rparr>"
definition cs_down :: cache_service where "cs_down = \<lparr>client = Some redis0, isConnected = False\<rparr>"
definition cs_none :: cache_service where "cs_none = \<lparr>client = None, isConnected = False\<rparr>"
definition cs_fail :: cache_service where
  "cs_fail = \<lparr>client = Some (redis0\<lparr>rejects := (\<lambda>cmd. True)\<rparr>), isConnected = True\<rparr>"

definition rt0 :: runtime where
  "rt0 = \<lparr>NODE_ENV = None, clock = 1000000, isoString = ''2024-01-01T00:00:00.000Z'',
          queryBase64 = (\<lambda>q. [])\<rparr>"

definition req0 :: request where
  "req0 = \<lparr>httpMethod = ''GET'', path = ''/api/services'', query = [], user = None, ip = ''10.0.0.1''\<rparr>"

text \<open>
  A reply that makes the patched response methods of \<^verbatim>\<open>invalidateCache\<close>
  start the invalidation: every reply ends in the patched \<^verbatim>\<open>res.end\<close>, whose
  test is that of the status code.
\<close>

definition write_succeeded :: "reply \<Rightarrow> bool" where
  "write_succeeded r \<longleftrightarrow>
     (case r of ReplyJson code data \<Rightarrow> code < 400
      | ReplySend code \<Rightarrow> code < 400
      | ReplyEnd code \<Rightarrow> code < 400)"

text \<open>Sample options, payload and handlers for the closed instances below.\<close>

definition opts0 :: cache_options where
  "opts0 = \<lparr>keyGenerator = None, expiration = 300, condition = (\<lambda>req. httpMethod req = ''GET''),
            onHit = (\<lambda>req key. None), onMiss = (\<lambda>req key. None), skipCache = False\<rparr>"

definition payload0 :: json where
  "payload0 = JObj [(''success'', JBool True), (''data'', JArr [JStr ''physio''])]"

definition handler0 :: "request \<Rightarrow> reply" where
  "handler0 req = ReplyJson 200 payload0"

definition write_handler :: "request \<Rightarrow> reply" where
  "write_handler req = ReplyJson 201 (JObj [(''success'', JBool True)])"

section \<open>Properties of JavaScript numbers\<close>




lemma bitlen_bounds:
  "0 < n \<Longrightarrow> 2 ^ (bitlen n - 1) \<le> n \<and> n < 2 ^ bitlen n"
proof (induction n rule: bitlen.induct)
  case (1 n)
  show ?case
  proof (cases "n div 2 = 0")
    case True
    with "1.prems" have "n = 1" by auto
    then show ?thesis by (simp add: bitlen.simps)
  next
    case False
    then have pos: "0 < n div 2" by simp
    have n0: "n \<noteq> 0" using "1.prems" by simp
    from "1.IH" [OF n0 pos]
    have lo: "2 ^ (bitlen (n div 2) - 1) \<le> n div 2" and hi: "n div 2 < 2 ^ bitlen (n div 2)"
      by simp_all
    have b: "bitlen n = Suc (bitlen (n div 2))"
      using n0 by (simp add: bitlen.simps [of n])
    have bp: "0 < bitlen (n div 2)"
      using pos by (simp add: bitlen.simps [of "n div 2"])
    have "2 ^ (bitlen n - 1) = 2 * 2 ^ (bitlen (n div 2) - 1)"
      using b bp by (cases "bitlen (n div 2)") simp_all
    also have "\<dots> \<le> 2 * (n div 2)" using lo by simp
    also have "\<dots> \<le> n" by simp
    finally have 1: "2 ^ (bitlen n - 1) \<le> n" .
    from hi have "n div 2 + 1 \<le> 2 ^ bitlen (n div 2)" by simp
    then have "2 * (n div 2 + 1) \<le> 2 ^ bitlen n" using b by simp
    moreover have "n < 2 * (n div 2 + 1)" by presburger
    ultimately have 2: "n < 2 ^ bitlen n" by linarith
    from 1 2 show ?thesis ..
  qed
qed

lemma round_half_even_of_int: "round_half_even (of_int z) = z"
  by (simp add: round_half_even_def)

lemma pow2_nonpos: "k \<le> 52 \<Longrightarrow> pow2 (int k - 52) = 1 / 2 ^ (52 - k)"
proof -
  assume k: "k \<le> 52"
  show ?thesis
  proof (cases "k = 52")
    case True
    then show ?thesis by (simp add: pow2_def)
  next
    case False
    with k have "nat (52 - int k) = 52 - k" and "\<not> 0 \<le> int k - 52"
      by linarith+
    then show ?thesis by (simp add: pow2_def)
  qed
qed

lemma scaled_back:
  assumes "k \<le> 52"
  shows "of_int (round_half_even (of_int n / pow2 (int k - 52))) * pow2 (int k - 52)
      = (of_int n :: rat)"
proof -
  have "of_int n / pow2 (int k - 52) = (of_int (n * 2 ^ (52 - k)) :: rat)"
    by (simp add: pow2_nonpos [OF assms])
  then have "round_half_even (of_int n / pow2 (int k - 52)) = n * 2 ^ (52 - k)"
    by (simp only: round_half_even_of_int)
  then show ?thesis
    by (simp add: pow2_nonpos [OF assms])
qed

lemma below_overflow:
  assumes "n \<le> 2 ^ 53"
  shows "(of_int n :: rat) < 2 ^ 1024"
proof -
  have "(of_int n :: rat) \<le> of_int (2 ^ 53)"
    using assms by (simp only: of_int_le_iff)
  also have "\<dots> = 2 ^ 53" by (simp only: of_int_power of_int_numeral)
  also have "\<dots> < (2::rat) ^ 1024"
    by (rule power_strict_increasing) simp_all
  finally show ?thesis .
qed

lemma scaled_back_top:
  "of_int (round_half_even (of_int (2 ^ 53) / pow2 (int 53 - 52))) * pow2 (int 53 - 52)
      = (of_int (2 ^ 53) :: rat)"
proof -
  have p: "pow2 (int 53 - 52) = 2"
    by (simp add: pow2_def)
  have "(of_int (2 ^ 53) / 2 :: rat) = of_int (2 ^ 52)"
    by simp
  then have "round_half_even (of_int (2 ^ 53) / 2) = 2 ^ 52"
    by (simp only: round_half_even_of_int)
  then show ?thesis
    unfolding p by simp
qed

lemma nearest_positive_of_int:
  assumes "0 < n" and "n \<le> 2 ^ 53"
  shows "nearest_positive (of_int n) = Num (of_int n)"
proof -
  define k where "k = bitlen (nat n) - 1"
  have np: "0 < nat n" using assms(1) by simp
  from bitlen_bounds [OF np] have lo: "2 ^ k \<le> nat n"
    by (simp add: k_def)
  have bl: "bitlen (nat n) = Suc k"
    using np by (simp add: k_def bitlen.simps [of "nat n"])
  from lo have "int (2 ^ k) \<le> int (nat n)"
    by (simp only: of_nat_le_iff)
  then have lo': "(2::int) ^ k \<le> n"
    using assms(1) by simp
  from lo' assms(2) have "(2::int) ^ k \<le> 2 ^ 53"
    by (rule order_trans)
  then have k53: "k \<le> 53"
    by (rule power_le_imp_le_exp [rotated]) simp
  have one: "(1::rat) \<le> of_int n"
    using assms(1) by simp
  have il: "ilog2 (of_int n) = int k"
    unfolding ilog2_def using one bl by simp
  have e: "max (- 1074) (ilog2 (of_int n) - 52) = int k - 52"
    unfolding il by simp
  have v: "of_int (round_half_even (of_int n / pow2 (int k - 52))) * pow2 (int k - 52)
      = (of_int n :: rat)"
  proof (cases "k \<le> 52")
    case True
    then show ?thesis by (rule scaled_back)
  next
    case False
    with k53 have k: "k = 53" by simp
    from lo' assms(2) have n: "n = 2 ^ 53"
      unfolding k by (rule order_antisym [rotated])
    show ?thesis
      unfolding k n by (rule scaled_back_top)
  qed
  show ?thesis
    unfolding nearest_positive_def Let_def e v
    using below_overflow [OF assms(2)] by (simp only: if_True)
qed

text \<open>Every integer between \<open>- 2 ^ 53\<close> and \<open>2 ^ 53\<close> is a double.\<close>

lemma double_of_int:
  assumes "\<bar>n\<bar> \<le> 2 ^ 53"
  shows "double (of_int n) = Num (of_int n)"
proof (cases "n = 0")
  case True
  then show ?thesis by (simp add: double_def)
next
  case False
  show ?thesis
  proof (cases "0 < n")
    case True
    with assms have "n \<le> 2 ^ 53" by linarith
    with True have "nearest_positive (of_int n) = Num (of_int n)"
      by (rule nearest_positive_of_int)
    with True show ?thesis by (simp add: double_def)
  next
    case neg: False
    with False assms have "0 < - n" and "- n \<le> 2 ^ 53" by linarith+
    then have "nearest_positive (of_int (- n)) = Num (of_int (- n))"
      by (rule nearest_positive_of_int)
    with neg False show ?thesis by (simp add: double_def js_neg_def)
  qed
qed


lemma js_sub_int:
  assumes "\<bar>a - b\<bar> \<le> 2 ^ 53"
  shows "js_sub (Num (of_int a)) (Num (of_int b)) = Num (of_int (a - b))"
  using double_of_int [OF assms] by (simp add: js_sub_def js_neg_def)


section \<open>Properties of the appointment model\<close>

lemma pre_save_status: "status (pre_save m a) = status a"
  by (simp add: pre_save_def calculateTotalCost_def Let_def)


lemma save_status: "status (snd (save m a)) = status a"
  by (simp add: save_def Let_def pre_save_status split: option.splits)


lemma save_accepts:
  "fst (save m a) = Inr () \<longleftrightarrow> validate m a = None \<and> persist m (pre_save m a) = None"
  by (simp add: save_def Let_def split: option.splits)

lemma transition_status: "status (transition now to a) = to"
  by (simp add: transition_def Let_def split: option.splits)



lemma updateStatus_allowed:
  assumes "map_of validTransitions (status a) = Some allowed" and "to \<in> set allowed"
  shows "updateStatus now m to a = save m (transition now to a)"
  using assms by (simp add: updateStatus_def)








lemma status_cases:
  assumes "status a \<in> set statusEnum"
  obtains "status a = ''scheduled''" | "status a = ''confirmed''" | "status a = ''in-progress''"
    | "status a = ''completed''" | "status a = ''canceled''" | "status a = ''no-show''"
    | "status a = ''rescheduled''"
  using assms unfolding statusEnum_def by auto

lemma table_allowed:
  assumes "status a \<in> set statusEnum" and "(status a, to) \<in> set spec_transition_table"
  shows "\<exists>allowed. map_of validTransitions (status a) = Some allowed \<and> to \<in> set allowed"
  using assms(1)
  by (cases rule: status_cases)
     (use assms(2) in \<open>auto simp: validTransitions_def spec_transition_table_def\<close>)

lemma table_refused:
  assumes "status a \<in> set statusEnum" and "(status a, to) \<notin> set spec_transition_table"
  shows "updateStatus now m to a
           = (Inl (Error (''Cannot transition from '' @ status a @ '' to '' @ to)), a)"
  using assms(1)
  by (cases rule: status_cases)
     (use assms(2) in \<open>auto simp: updateStatus_def validTransitions_def spec_transition_table_def\<close>)

text \<open>
  C1 as stated fails: a listed transition passes the test of the table, but the
  call then returns the promise of \<open>save\<close>, which can reject. The document
  that a save with \<open>insuranceCovered\<close> modified has just written (patient payment
  -30) is in progress; \<open>updateStatus\<close> to completed, a listed pair, is
  rejected by the validation of its save with a ValidationError, and the status of
  the document in memory is completed all the same.
\<close>

theorem updateStatus_rejected_by_save:
  "save mongoose_cost appt1 = (Inr (), snd (calculateTotalCost appt1))
   \<and> status (snd (calculateTotalCost appt1)) \<in> set statusEnum
   \<and> (status (snd (calculateTotalCost appt1)), ''completed'') \<in> set spec_transition_table
   \<and> fst (updateStatus 91000 mongoose_ok ''completed'' (snd (calculateTotalCost appt1)))
       = Inl (ValidationError [''Patient payment cannot be negative''])
   \<and> status (snd (updateStatus 91000 mongoose_ok ''completed'' (snd (calculateTotalCost appt1))))
       = ''completed''"
proof -
  have d: "js_sub (Num 50) (Num 80) = Num (- 30)"
    using js_sub_int [of 50 80] by simp
  show ?thesis
    by (simp add: appt1_def calculateTotalCost_def mongoose_cost_def mongoose_ok_def save_def
        pre_save_def schema_validate_def min_ok_def statusEnum_def spec_transition_table_def
        updateStatus_def validTransitions_def transition_def Let_def d)
qed

text \<open>
  C1 (amended). For a document whose status is one of the seven enumerated values
  and any requested status: if the pair (current, requested) is in the
  specification's transition table, \<open>updateStatus\<close> sets the status of the document
  in memory to the requested one and returns the outcome of \<open>save\<close> on the updated
  document, so the call succeeds exactly when the validation and the write of that
  save succeed; if the pair is not in the table, \<open>updateStatus\<close> throws the
  illegal-transition error and the document is left exactly as it was.
\<close>

theorem updateStatus_transition_table:
  assumes "status a \<in> set statusEnum"
  shows "((status a, to) \<in> set spec_transition_table \<longrightarrow>
            updateStatus now m to a = save m (transition now to a)
            \<and> status (snd (updateStatus now m to a)) = to
            \<and> (fst (updateStatus now m to a) = Inr () \<longleftrightarrow>
                 validate m (transition now to a) = None
                 \<and> persist m (pre_save m (transition now to a)) = None))
       \<and> ((status a, to) \<notin> set spec_transition_table \<longrightarrow>
            fst (updateStatus now m to a)
              = Inl (Error (''Cannot transition from '' @ status a @ '' to '' @ to))
            \<and> snd (updateStatus now m to a) = a)"
proof (intro conjI impI)
  assume "(status a, to) \<in> set spec_transition_table"
  with assms obtain allowed
    where "map_of validTransitions (status a) = Some allowed" and "to \<in> set allowed"
    using table_allowed by blast
  then show u: "updateStatus now m to a = save m (transition now to a)"
    by (rule updateStatus_allowed)
  show "status (snd (updateStatus now m to a)) = to"
    unfolding u by (simp only: save_status transition_status)
  show "fst (updateStatus now m to a) = Inr () \<longleftrightarrow>
          validate m (transition now to a) = None
          \<and> persist m (pre_save m (transition now to a)) = None"
    unfolding u by (rule save_accepts)
next
  assume "(status a, to) \<notin> set spec_transition_table"
  with assms have r: "updateStatus now m to a
      = (Inl (Error (''Cannot transition from '' @ status a @ '' to '' @ to)), a)"
    by (rule table_refused)
  show "fst (updateStatus now m to a)
          = Inl (Error (''Cannot transition from '' @ status a @ '' to '' @ to))"
    unfolding r by simp
  show "snd (updateStatus now m to a) = a"
    unfolding r by simp
qed

theorem updateStatus_transition_table_witness:
  "status appt0 \<in> set statusEnum
   \<and> (status appt0, ''in-progress'') \<in> set spec_transition_table
   \<and> validate mongoose_ok (transition 5 ''in-progress'' appt0) = None
   \<and> persist mongoose_ok (pre_save mongoose_ok (transition 5 ''in-progress'' appt0)) = None
   \<and> fst (updateStatus 5 mongoose_ok ''in-progress'' appt0) = Inr ()
   \<and> status (snd (updateStatus 5 mongoose_ok ''in-progress'' appt0)) = ''in-progress''
   \<and> (status appt0, ''completed'') \<notin> set spec_transition_table
   \<and> fst (updateStatus 5 mongoose_ok ''completed'' appt0)
       = Inl (Error ''Cannot transition from confirmed to completed'')
   \<and> snd (updateStatus 5 mongoose_ok ''completed'' appt0) = appt0"
proof -
  have e: "status appt0 \<in> set statusEnum"
    by (simp add: appt0_def statusEnum_def)
  have s: "status appt0 = ''confirmed''"
    by (simp add: appt0_def)
  have t: "(status appt0, ''in-progress'') \<in> set spec_transition_table"
    "(status appt0, ''completed'') \<notin> set spec_transition_table"
    by (simp_all add: s spec_transition_table_def)
  have v: "validate mongoose_ok (transition 5 ''in-progress'' appt0) = None"
    by (simp add: mongoose_ok_def schema_validate_def transition_def appt0_def statusEnum_def
        min_ok_def Let_def)
  have p: "persist mongoose_ok (pre_save mongoose_ok (transition 5 ''in-progress'' appt0)) = None"
    by (simp add: mongoose_ok_def)
  note T = updateStatus_transition_table [OF e, of "''in-progress''" 5 mongoose_ok,
      THEN conjunct1, rule_format, OF t(1)]
  from T [THEN conjunct2, THEN conjunct2] v p
  have ok: "fst (updateStatus 5 mongoose_ok ''in-progress'' appt0) = Inr ()"
    by (simp only: simp_thms)
  note st = T [THEN conjunct2, THEN conjunct1]
  from updateStatus_transition_table [OF e, of "''completed''" 5 mongoose_ok,
      THEN conjunct2, rule_format, OF t(2)]
  have r: "fst (updateStatus 5 mongoose_ok ''completed'' appt0)
             = Inl (Error ''Cannot transition from confirmed to completed'')
           \<and> snd (updateStatus 5 mongoose_ok ''completed'' appt0) = appt0"
    by (simp add: s)
  from e t v p ok st r show ?thesis
    by (intro conjI) simp_all
qed




text \<open>
  C3. \<open>canBeCanceled\<close> holds exactly when the status is scheduled or confirmed and the
  appointment lies at least 24 hours (24 * 3600000 ms) after \<open>now\<close>;
  \<open>canBeRescheduled\<close> holds exactly when the status is scheduled or confirmed and the
  appointment lies at least 2 hours after \<open>now\<close>.
\<close>

theorem canBeCanceled_canBeRescheduled_iff:
  "(canBeCanceled now a \<longleftrightarrow>
      (status a = ''scheduled'' \<or> status a = ''confirmed'')
      \<and> appointmentDateTime a - now \<ge> 24 * 3600000)
 \<and> (canBeRescheduled now a \<longleftrightarrow>
      (status a = ''scheduled'' \<or> status a = ''confirmed'')
      \<and> appointmentDateTime a - now \<ge> 2 * 3600000)"
proof -
  have h: "(of_int (appointmentDateTime a - now) / (1000 * 3600) \<ge> (of_int k :: rat))
      \<longleftrightarrow> appointmentDateTime a - now \<ge> k * 3600000" for k :: int
  proof -
    have "(of_int (appointmentDateTime a - now) / (1000 * 3600) \<ge> (of_int k :: rat))
       \<longleftrightarrow> (of_int k :: rat) * 3600000 \<le> of_int (appointmentDateTime a - now)"
      by (simp add: pos_le_divide_eq)
    also have "\<dots> \<longleftrightarrow> (of_int (k * 3600000) :: rat) \<le> of_int (appointmentDateTime a - now)"
      by simp
    also have "\<dots> \<longleftrightarrow> k * 3600000 \<le> appointmentDateTime a - now"
      by (simp only: of_int_le_iff)
    finally show ?thesis .
  qed
  show ?thesis
    using h[of 24] h[of 2]
    by (auto simp: canBeCanceled_def canBeRescheduled_def hoursUntilAppointment_def)
qed

theorem canBeCanceled_canBeRescheduled_iff_witness:
  "canBeCanceled 0 appt0 \<and> \<not> canBeCanceled (20 * 3600000) appt0
   \<and> canBeRescheduled (27 * 3600000) appt0 \<and> \<not> canBeRescheduled (29 * 3600000) appt0
   \<and> \<not> canBeRescheduled 0 appt1"
  using canBeCanceled_canBeRescheduled_iff [of 0 appt0]
    canBeCanceled_canBeRescheduled_iff [of "20 * 3600000" appt0]
    canBeCanceled_canBeRescheduled_iff [of "27 * 3600000" appt0]
    canBeCanceled_canBeRescheduled_iff [of "29 * 3600000" appt0]
    canBeCanceled_canBeRescheduled_iff [of 0 appt1]
  by (simp add: appt0_def appt1_def)



text \<open>
  C5. The recomputed \<open>patientPayment\<close> is the total minus \<open>insuranceCovered\<close>, with
  no lower bound: for a base price of 50, no additional charge and 80 covered by
  insurance (all non-negative) \<open>calculateTotalCost\<close> leaves \<open>patientPayment = -30\<close>,
  below the minimum 0 the schema declares for the field, and a save with
  \<open>insuranceCovered\<close> marked as modified, validated before the hook recomputes,
  succeeds with that value.
\<close>

theorem calculateTotalCost_negative_patientPayment:
  "basePrice (cost appt1) = Num 50 \<and> min_ok (basePrice (cost appt1))
   \<and> additionalCharges (cost appt1) = []
   \<and> insuranceCovered (cost appt1) = Num 80 \<and> min_ok (insuranceCovered (cost appt1))
   \<and> totalAmount (cost (snd (calculateTotalCost appt1))) = Num 50
   \<and> patientPayment (cost (snd (calculateTotalCost appt1))) = Num (- 30)
   \<and> patientPayment (cost (snd (calculateTotalCost appt1)))
       = js_sub (totalAmount (cost (snd (calculateTotalCost appt1))))
           (insuranceCovered (cost (snd (calculateTotalCost appt1))))
   \<and> fst (save mongoose_cost appt1) = Inr ()
   \<and> patientPayment (cost (snd (save mongoose_cost appt1))) = Num (- 30)
   \<and> \<not> min_ok (patientPayment (cost (snd (save mongoose_cost appt1))))"
proof -
  have d: "js_sub (Num 50) (Num 80) = Num (- 30)"
    using js_sub_int [of 50 80] by simp
  show ?thesis
    by (simp add: appt1_def calculateTotalCost_def mongoose_cost_def save_def pre_save_def
        schema_validate_def min_ok_def statusEnum_def Let_def d)
qed

section \<open>Properties of the cache store and the rate limiter\<close>

text \<open>
  C6. When the store is unreachable for the command a method would send (the service
  is not connected, has no client, or the command fails), \<open>get\<close> resolves to null,
  \<open>set\<close> and \<open>del\<close> resolve to false and leave the service as it was; and in
  every state each of the three resolves to a value, never rejects.
\<close>

theorem cache_best_effort:
  "(store_unreachable cs (Get key) \<longrightarrow> CacheService_get cs key = Inr JNull)
 \<and> (store_unreachable cs (SetEx key ttl v) \<longrightarrow> CacheService_set cs key v ttl = (Inr False, cs))
 \<and> (store_unreachable cs (Del key) \<longrightarrow> CacheService_del cs key = (Inr False, cs))
 \<and> (\<exists>r. CacheService_get cs key = Inr r)
 \<and> (\<exists>b. fst (CacheService_set cs key v ttl) = Inr b)
 \<and> (\<exists>b. fst (CacheService_del cs key) = Inr b)"
  by (auto simp: store_unreachable_def CacheService_get_def CacheService_set_def
      CacheService_del_def client_get_def client_setEx_def client_del_def
      split: option.splits sum.splits)

theorem cache_best_effort_witness:
  "store_unreachable cs_down (Get ''development:user:42'')
   \<and> CacheService_get cs_down ''development:user:42'' = Inr JNull
   \<and> store_unreachable cs_none (SetEx ''k'' 300 (JStr ''v''))
   \<and> CacheService_set cs_none ''k'' (JStr ''v'') 300 = (Inr False, cs_none)
   \<and> store_unreachable cs_fail (Del ''development:user:42'')
   \<and> CacheService_del cs_fail ''development:user:42'' = (Inr False, cs_fail)"
proof -
  have u: "store_unreachable cs_down (Get ''development:user:42'')"
    "store_unreachable cs_none (SetEx ''k'' 300 (JStr ''v''))"
    "store_unreachable cs_fail (Del ''development:user:42'')"
    by (simp_all add: store_unreachable_def cs_down_def cs_none_def cs_fail_def)
  show ?thesis
    using u cache_best_effort [of cs_down "''development:user:42''"]
      cache_best_effort [of cs_none "''k''" 300 "JStr ''v''"]
      cache_best_effort [of cs_fail "''development:user:42''"]
    by simp
qed

lemma incrementRateLimit_unreachable:
  "store_unreachable cs (Incr (generateKey rt ''ratelimit'' identifier [])) \<Longrightarrow>
     incrementRateLimit rt cs identifier window = (Inr 1, cs)"
  by (auto simp: store_unreachable_def incrementRateLimit_def client_incr_def Let_def
      split: option.splits)

text \<open>
  C10 (amended). When the store is unreachable for the increment,
  \<open>incrementRateLimit\<close> resolves to 1 and leaves the service unchanged. For a limit
  \<open>maxRequests\<close> of at least 1 the middleware then calls \<^verbatim>\<open>next()\<close>, and a
  request is rejected with status 429 only in a state where the store is reachable
  for the increment.
\<close>

theorem rate_limit_fails_open:
  "(store_unreachable cs (Incr (generateKey rt ''ratelimit'' identifier [])) \<longrightarrow>
      incrementRateLimit rt cs identifier window = (Inr 1, cs))
 \<and> (1 \<le> maxRequests opts \<longrightarrow>
      (\<forall>key. rateKeyGenerator opts req = Inr key
          \<and> store_unreachable cs (Incr (generateKey rt ''ratelimit'' key [])) \<longrightarrow>
        (\<exists>hs. rateLimitMiddleware opts rt req cs = (Next hs, cs)))
    \<and> (\<forall>r. fst (rateLimitMiddleware opts rt req cs) = Rejected r \<longrightarrow>
        (\<exists>key. rateKeyGenerator opts req = Inr key
           \<and> \<not> store_unreachable cs (Incr (generateKey rt ''ratelimit'' key [])))))"
proof (intro conjI impI allI)
  assume "store_unreachable cs (Incr (generateKey rt ''ratelimit'' identifier []))"
  then show "incrementRateLimit rt cs identifier window = (Inr 1, cs)"
    by (rule incrementRateLimit_unreachable)
next
  fix key
  assume m: "1 \<le> maxRequests opts"
    and k: "rateKeyGenerator opts req = Inr key
          \<and> store_unreachable cs (Incr (generateKey rt ''ratelimit'' key []))"
  then have "incrementRateLimit rt cs key (windowMs opts div 1000) = (Inr 1, cs)"
    using incrementRateLimit_unreachable by blast
  with m k show "\<exists>hs. rateLimitMiddleware opts rt req cs = (Next hs, cs)"
    by (simp add: rateLimitMiddleware_def Let_def)
next
  fix r
  assume m: "1 \<le> maxRequests opts"
    and rej: "fst (rateLimitMiddleware opts rt req cs) = Rejected r"
  from rej obtain key where k: "rateKeyGenerator opts req = Inr key"
    by (cases "rateKeyGenerator opts req") (auto simp: rateLimitMiddleware_def)
  have "\<not> store_unreachable cs (Incr (generateKey rt ''ratelimit'' key []))"
  proof
    assume "store_unreachable cs (Incr (generateKey rt ''ratelimit'' key []))"
    then have "incrementRateLimit rt cs key (windowMs opts div 1000) = (Inr 1, cs)"
      by (rule incrementRateLimit_unreachable)
    with m k rej show False
      by (simp add: rateLimitMiddleware_def Let_def split: if_splits)
  qed
  with k show "\<exists>key. rateKeyGenerator opts req = Inr key
           \<and> \<not> store_unreachable cs (Incr (generateKey rt ''ratelimit'' key []))"
    by blast
qed

text \<open>
  C10 as stated fails for a limit below 1: with \<open>maxRequests = 0\<close> and a
  disconnected store the count 1 returned by \<open>incrementRateLimit\<close> exceeds the
  limit and the request is rejected with status 429.
\<close>

theorem rate_limit_rejects_without_store:
  "store_unreachable cs_down (Incr (generateKey rt0 ''ratelimit'' (ip req0) []))
   \<and> incrementRateLimit rt0 cs_down (ip req0) 900 = (Inr 1, cs_down)
   \<and> rateLimitMiddleware (default_rate_options\<lparr>maxRequests := 0\<rparr>) rt0 req0 cs_down
       = (Rejected \<lparr>statusCode = 429,
                    headers = [XRateLimitLimit 0, XRateLimitRemaining 0, XRateLimitReset 1900000],
                    body = JObj [(''success'', JBool False),
                                 (''message'', JStr ''Too many requests''),
                                 (''retryAfter'', JNum 900000)]\<rparr>, cs_down)"
  by (simp add: store_unreachable_def cs_down_def rateLimitMiddleware_def
      default_rate_options_def incrementRateLimit_def req0_def rt0_def Let_def)

theorem rate_limit_fails_open_witness:
  "store_unreachable cs_fail (Incr (generateKey rt0 ''ratelimit'' ''10.0.0.1'' []))
   \<and> 1 \<le> maxRequests default_rate_options
   \<and> rateKeyGenerator default_rate_options req0 = Inr ''10.0.0.1''
   \<and> incrementRateLimit rt0 cs_fail ''10.0.0.1'' 900 = (Inr 1, cs_fail)
   \<and> (\<exists>hs. rateLimitMiddleware default_rate_options rt0 req0 cs_fail = (Next hs, cs_fail))"
proof -
  have u: "store_unreachable cs_fail (Incr (generateKey rt0 ''ratelimit'' ''10.0.0.1'' []))"
    by (simp add: store_unreachable_def cs_fail_def)
  have m: "1 \<le> maxRequests default_rate_options"
    and k: "rateKeyGenerator default_rate_options req0 = Inr ''10.0.0.1''"
    by (simp_all add: default_rate_options_def req0_def)
  show ?thesis
    using u m k
      rate_limit_fails_open [of cs_fail rt0 "''10.0.0.1''" 900 default_rate_options req0]
    by blast
qed

section \<open>Properties of the cache middleware\<close>

lemma map_of_rev_distinct:
  assumes "distinct (map fst xs)"
  shows "map_of (rev xs) = map_of xs"
proof (rule ext)
  fix k
  have d: "distinct (map fst (rev xs))"
    using assms by (simp add: rev_map [symmetric])
  show "map_of (rev xs) k = map_of xs k"
  proof (cases "map_of xs k")
    case None
    then have "k \<notin> fst ` set xs"
      by (simp add: map_of_eq_None_iff)
    then have "map_of (rev xs) k = None"
      by (simp add: map_of_eq_None_iff)
    with None show ?thesis by simp
  next
    case (Some v)
    then have "(k, v) \<in> set (rev xs)"
      using map_of_eq_Some_iff [OF assms] by simp
    then have "map_of (rev xs) k = Some v"
      using map_of_eq_Some_iff [OF d] by simp
    with Some show ?thesis by simp
  qed
qed

lemma map_of_assign: "map_of (assign t src) = map_of t ++ map_of (rev src)"
proof (induction src arbitrary: t)
  case Nil
  show ?case by (simp add: assign_def)
next
  case (Cons kv src)
  obtain k v where kv: "kv = (k, v)" by (cases kv)
  have "assign t (kv # src) = assign (AList.update k v t) src"
    by (simp add: assign_def kv)
  then have "map_of (assign t (kv # src)) = (map_of t)(k \<mapsto> v) ++ map_of (rev src)"
    using Cons.IH [of "AList.update k v t"] by (simp only: update_conv')
  also have "\<dots> = map_of t ++ map_of (rev (kv # src))"
    by (auto simp: kv fun_eq_iff map_add_def split: option.splits)
  finally show ?case .
qed

lemma hit_body_object:
  assumes "distinct (map fst fs)"
  shows "\<exists>hs. hit_body rt (JObj fs) = JObj hs
           \<and> (\<forall>name v. map_of fs name = Some v \<longrightarrow> map_of hs name = Some v)
           \<and> (map_of fs ''cached'' = None \<longrightarrow> map_of hs ''cached'' = Some (JBool True))
           \<and> (map_of fs ''timestamp'' = None \<longrightarrow> map_of hs ''timestamp'' = Some (JStr (isoString rt)))
           \<and> (map_of fs ''success'' = None \<longrightarrow> map_of hs ''success'' = Some (JBool True))"
  using assms
  by (simp add: hit_body_def map_of_assign map_of_rev_distinct map_add_def)

lemma first_read:
  assumes "\<not> skipCache opts" "condition opts req"
    and "(case keyGenerator opts of Some g \<Rightarrow> g req | None \<Rightarrow> Inr (generateDefaultKey rt req)) = Inr k"
    and "isConnected cs" "client cs = Some c"
    and "\<not> rejects c (Get k)" "\<not> rejects c (SetEx k (expiration opts) data)"
    and "map_of (entries c) k = None"
    and "handler req = ReplyJson code data"
    and "onMiss opts req k = None"
  shows "cacheMiddleware opts rt handler req cs =
      (Miss \<lparr>statusCode = code,
             headers = [XCache ''MISS'', XCacheKey k, CacheControlMaxAge (expiration opts)],
             body = data\<rparr>,
       if successful data code
       then cs\<lparr>client := Some (c\<lparr>entries := AList.update k (data, Some (expiration opts)) (entries c)\<rparr>)\<rparr>
       else cs)"
  using assms
  by (simp add: cacheMiddleware_def CacheService_get_def client_get_def CacheService_set_def
      client_setEx_def Let_def)

lemma second_read:
  assumes "\<not> skipCache opts" "condition opts req"
    and "(case keyGenerator opts of Some g \<Rightarrow> g req | None \<Rightarrow> Inr (generateDefaultKey rt req)) = Inr k"
    and "isConnected cs" "client cs = Some c"
    and "\<not> rejects c (Get k)"
    and "map_of (entries c) k = Some (data, t)" "truthy data"
    and "onHit opts req k = None"
  shows "cacheMiddleware opts rt handler req cs =
      (Hit \<lparr>statusCode = 200,
            headers = [XCache ''HIT'', XCacheKey k, CacheControlMaxAge (expiration opts)],
            body = hit_body rt data\<rparr>, cs)"
  using assms
  by (simp add: cacheMiddleware_def CacheService_get_def client_get_def)


lemma generateDefaultKey_clock:
  "generateDefaultKey (rt\<lparr>clock := t', isoString := ts'\<rparr>) req = generateDefaultKey rt req"
  by (simp add: generateDefaultKey_def)

text \<open>
  C7 (amended). Take a request that passes the middleware's condition, with the store
  reachable and accepting the read and the write of the computed key, that key absent
  from the store, callbacks that do not throw, and a handler that replies through
  \<^verbatim>\<open>res.json\<close>. Then the read is a miss: the handler's reply goes out unchanged
  with the miss marker. If the reply is not a success the store is unchanged. If it
  is, the payload is stored under the key, and an identical read that follows, at
  any later clock value and whatever the handler would do, is a hit answered without
  the handler: status 200, the hit marker, and as body the object built from
  \<^verbatim>\<open>success: true\<close>, \<^verbatim>\<open>cached: true\<close>, \<^verbatim>\<open>timestamp\<close> and the
  properties of the cached payload. For an object payload every property of the
  original reply is in it with the same value, next to \<^verbatim>\<open>cached\<close> and
  \<^verbatim>\<open>timestamp\<close> (which the payload's own properties of these names override).
\<close>

theorem cache_miss_then_hit:
  assumes "\<not> skipCache opts" and "condition opts req"
    and "(case keyGenerator opts of Some g \<Rightarrow> g req
          | None \<Rightarrow> Inr (generateDefaultKey rt req)) = Inr k"
    and "isConnected cs" and "client cs = Some c"
    and "\<not> rejects c (Get k)" and "\<not> rejects c (SetEx k (expiration opts) data)"
    and "map_of (entries c) k = None"
    and "handler req = ReplyJson code data"
    and "onMiss opts req k = None" and "onHit opts req k = None"
  shows "\<exists>cs1.
      cacheMiddleware opts rt handler req cs =
        (Miss \<lparr>statusCode = code,
               headers = [XCache ''MISS'', XCacheKey k, CacheControlMaxAge (expiration opts)],
               body = data\<rparr>, cs1)
    \<and> (\<not> successful data code \<longrightarrow> cs1 = cs)
    \<and> (successful data code \<longrightarrow>
          CacheService_get cs1 k = Inr data
        \<and> (\<forall>t' ts' handler'.
              cacheMiddleware opts (rt\<lparr>clock := t', isoString := ts'\<rparr>) handler' req cs1 =
                (Hit \<lparr>statusCode = 200,
                      headers = [XCache ''HIT'', XCacheKey k, CacheControlMaxAge (expiration opts)],
                      body = hit_body (rt\<lparr>clock := t', isoString := ts'\<rparr>) data\<rparr>, cs1))
        \<and> (\<forall>fs t' ts'. data = JObj fs \<and> distinct (map fst fs) \<longrightarrow>
              (\<exists>hs. hit_body (rt\<lparr>clock := t', isoString := ts'\<rparr>) data = JObj hs
                 \<and> (\<forall>name v. map_of fs name = Some v \<longrightarrow> map_of hs name = Some v)
                 \<and> (map_of fs ''cached'' = None \<longrightarrow> map_of hs ''cached'' = Some (JBool True))
                 \<and> (map_of fs ''timestamp'' = None \<longrightarrow>
                      map_of hs ''timestamp'' = Some (JStr ts')))))"
proof -
  let ?c1 = "c\<lparr>entries := AList.update k (data, Some (expiration opts)) (entries c)\<rparr>"
  let ?cs1 = "if successful data code then cs\<lparr>client := Some ?c1\<rparr> else cs"
  have first: "cacheMiddleware opts rt handler req cs =
        (Miss \<lparr>statusCode = code,
               headers = [XCache ''MISS'', XCacheKey k, CacheControlMaxAge (expiration opts)],
               body = data\<rparr>, ?cs1)"
    using assms(1-10) by (rule first_read)
  have stored: "CacheService_get ?cs1 k = Inr data
      \<and> (\<forall>t' ts' handler'.
              cacheMiddleware opts (rt\<lparr>clock := t', isoString := ts'\<rparr>) handler' req ?cs1 =
                (Hit \<lparr>statusCode = 200,
                      headers = [XCache ''HIT'', XCacheKey k, CacheControlMaxAge (expiration opts)],
                      body = hit_body (rt\<lparr>clock := t', isoString := ts'\<rparr>) data\<rparr>, ?cs1))"
    if s: "successful data code"
  proof (intro conjI allI)
    have e: "map_of (entries ?c1) k = Some (data, Some (expiration opts))"
      by (simp add: update_conv')
    from s have t: "truthy data"
      by (simp add: successful_def)
    show "CacheService_get ?cs1 k = Inr data"
      using s assms(4,6) e by (simp add: CacheService_get_def client_get_def)
    fix t' ts' handler'
    let ?rt = "rt\<lparr>clock := t', isoString := ts'\<rparr>"
    have key': "(case keyGenerator opts of Some g \<Rightarrow> g req
          | None \<Rightarrow> Inr (generateDefaultKey ?rt req)) = Inr k"
      using assms(3) by (simp only: generateDefaultKey_clock)
    have "cacheMiddleware opts ?rt handler' req (cs\<lparr>client := Some ?c1\<rparr>) =
        (Hit \<lparr>statusCode = 200,
              headers = [XCache ''HIT'', XCacheKey k, CacheControlMaxAge (expiration opts)],
              body = hit_body ?rt data\<rparr>, cs\<lparr>client := Some ?c1\<rparr>)"
      by (rule second_read [OF assms(1,2) key' _ _ _ e t assms(11)])
         (simp_all add: assms(4,6))
    with s show "cacheMiddleware opts ?rt handler' req ?cs1 =
        (Hit \<lparr>statusCode = 200,
              headers = [XCache ''HIT'', XCacheKey k, CacheControlMaxAge (expiration opts)],
              body = hit_body ?rt data\<rparr>, ?cs1)"
      by simp
  qed
  have fields: "\<exists>hs. hit_body (rt\<lparr>clock := t', isoString := ts'\<rparr>) data = JObj hs
                 \<and> (\<forall>name v. map_of fs name = Some v \<longrightarrow> map_of hs name = Some v)
                 \<and> (map_of fs ''cached'' = None \<longrightarrow> map_of hs ''cached'' = Some (JBool True))
                 \<and> (map_of fs ''timestamp'' = None \<longrightarrow>
                      map_of hs ''timestamp'' = Some (JStr ts'))"
    if "data = JObj fs \<and> distinct (map fst fs)" for fs t' ts'
    using that hit_body_object [of fs "rt\<lparr>clock := t', isoString := ts'\<rparr>"] by auto
  show ?thesis
    using first stored fields by (intro exI [of _ ?cs1]) simp
qed

lemma sample_read_hyps:
  "\<not> skipCache opts0" "condition opts0 req0"
  "(case keyGenerator opts0 of Some g \<Rightarrow> g req0
     | None \<Rightarrow> Inr (generateDefaultKey rt0 req0)) = Inr ''GET:/api/services:anonymous:''"
  "isConnected cs_up" "client cs_up = Some redis0"
  "\<not> rejects redis0 (Get ''GET:/api/services:anonymous:'')"
  "\<not> rejects redis0 (SetEx ''GET:/api/services:anonymous:'' (expiration opts0) payload0)"
  "map_of (entries redis0) ''GET:/api/services:anonymous:'' = None"
  "handler0 req0 = ReplyJson 200 payload0"
  "onMiss opts0 req0 ''GET:/api/services:anonymous:'' = None"
  "onHit opts0 req0 ''GET:/api/services:anonymous:'' = None"
  by (simp_all add: opts0_def req0_def rt0_def cs_up_def redis0_def handler0_def
      generateDefaultKey_def)

theorem cache_miss_then_hit_witness:
  "\<exists>cs1. cacheMiddleware opts0 rt0 handler0 req0 cs_up =
           (Miss \<lparr>statusCode = 200,
                  headers = [XCache ''MISS'', XCacheKey ''GET:/api/services:anonymous:'',
                             CacheControlMaxAge 300],
                  body = payload0\<rparr>, cs1)
       \<and> CacheService_get cs1 ''GET:/api/services:anonymous:'' = Inr payload0
       \<and> cacheMiddleware opts0 (rt0\<lparr>clock := 1000500, isoString := ''2024-01-01T00:00:00.500Z''\<rparr>)
            (\<lambda>req. ReplyEnd 500) req0 cs1 =
           (Hit \<lparr>statusCode = 200,
                 headers = [XCache ''HIT'', XCacheKey ''GET:/api/services:anonymous:'',
                            CacheControlMaxAge 300],
                 body = hit_body (rt0\<lparr>clock := 1000500, isoString := ''2024-01-01T00:00:00.500Z''\<rparr>)
                          payload0\<rparr>, cs1)"
proof -
  have s: "successful payload0 200"
    by (simp add: successful_def payload0_def)
  have e: "expiration opts0 = 300"
    by (simp add: opts0_def)
  from cache_miss_then_hit [where opts = opts0 and req = req0 and rt = rt0
      and handler = handler0 and cs = cs_up and c = redis0
      and k = "''GET:/api/services:anonymous:''" and data = payload0 and code = 200,
      OF sample_read_hyps] s e show ?thesis
    by auto
qed

text \<open>
  C7 as stated fails on the last point: the body of the hit is not the body of the
  miss. For the reply \<^verbatim>\<open>{success: true, data: ["physio"]}\<close> the hit carries
  the two extra properties \<^verbatim>\<open>cached\<close> and \<^verbatim>\<open>timestamp\<close>.
\<close>

theorem cache_hit_payload_differs:
  "fst (cacheMiddleware opts0 rt0 handler0 req0 cs_up) =
     Miss \<lparr>statusCode = 200,
           headers = [XCache ''MISS'', XCacheKey ''GET:/api/services:anonymous:'',
                      CacheControlMaxAge 300],
           body = JObj [(''success'', JBool True), (''data'', JArr [JStr ''physio''])]\<rparr>
 \<and> fst (cacheMiddleware opts0 rt0 handler0 req0
          (snd (cacheMiddleware opts0 rt0 handler0 req0 cs_up))) =
     Hit \<lparr>statusCode = 200,
          headers = [XCache ''HIT'', XCacheKey ''GET:/api/services:anonymous:'',
                     CacheControlMaxAge 300],
          body = JObj [(''success'', JBool True), (''cached'', JBool True),
                       (''timestamp'', JStr ''2024-01-01T00:00:00.000Z''),
                       (''data'', JArr [JStr ''physio''])]\<rparr>
 \<and> JObj [(''success'', JBool True), (''cached'', JBool True),
          (''timestamp'', JStr ''2024-01-01T00:00:00.000Z''),
          (''data'', JArr [JStr ''physio''])]
     \<noteq> JObj [(''success'', JBool True), (''data'', JArr [JStr ''physio''])]"
  by (simp add: cacheMiddleware_def opts0_def rt0_def handler0_def payload0_def req0_def
      cs_up_def redis0_def generateDefaultKey_def CacheService_get_def client_get_def
      CacheService_set_def client_setEx_def successful_def hit_body_def assign_def Let_def)

lemma del_each_reachable:
  assumes "isConnected cs" and "client cs = Some c" and "\<forall>k. \<not> rejects c (Del k)"
  shows "del_each cs ks =
    (None, cs\<lparr>client := Some (c\<lparr>entries := filter (\<lambda>e. fst e \<notin> set ks) (entries c)\<rparr>)\<rparr>)"
  using assms
proof (induction ks arbitrary: cs c)
  case Nil
  then show ?case by simp
next
  case (Cons k ks)
  let ?c1 = "c\<lparr>entries := AList.delete k (entries c)\<rparr>"
  let ?cs1 = "cs\<lparr>client := Some ?c1\<rparr>"
  have d: "CacheService_del cs k = (Inr True, ?cs1)"
    using Cons.prems by (simp add: CacheService_del_def client_del_def)
  have "del_each ?cs1 ks =
    (None, ?cs1\<lparr>client := Some (?c1\<lparr>entries := filter (\<lambda>e. fst e \<notin> set ks) (entries ?c1)\<rparr>)\<rparr>)"
    by (rule Cons.IH) (use Cons.prems in simp_all)
  moreover have "filter (\<lambda>e. fst e \<notin> set ks) (AList.delete k (entries c))
        = filter (\<lambda>e. fst e \<notin> set (k # ks)) (entries c)"
    by (auto simp: AList.delete_eq intro: filter_cong)
  ultimately show ?case
    using d by simp
qed

lemma invalidate_each_reachable:
  assumes "isConnected cs" and "client cs = Some c" and "\<forall>cmd. \<not> rejects c cmd"
  shows "invalidate_each cs ps =
    (None, cs\<lparr>client := Some (c\<lparr>entries :=
               filter (\<lambda>e. \<forall>p\<in>set ps. \<not> matches c p (fst e)) (entries c)\<rparr>)\<rparr>)"
  using assms
proof (induction ps arbitrary: cs c)
  case Nil
  then show ?case by simp
next
  case (Cons p ps)
  let ?ks = "filter (matches c p) (map fst (entries c))"
  let ?c1 = "c\<lparr>entries := filter (\<lambda>e. fst e \<notin> set ?ks) (entries c)\<rparr>"
  let ?cs1 = "cs\<lparr>client := Some ?c1\<rparr>"
  have k: "CacheService_keys cs p = Inr ?ks"
    using Cons.prems by (simp add: CacheService_keys_def client_keys_def)
  have d: "del_each cs ?ks = (None, ?cs1)"
    by (rule del_each_reachable) (use Cons.prems in simp_all)
  have i: "invalidate_each ?cs1 ps =
    (None, ?cs1\<lparr>client := Some (?c1\<lparr>entries :=
               filter (\<lambda>e. \<forall>p\<in>set ps. \<not> matches ?c1 p (fst e)) (entries ?c1)\<rparr>)\<rparr>)"
    by (rule Cons.IH) (use Cons.prems in simp_all)
  have "filter (\<lambda>e. \<forall>q\<in>set ps. \<not> matches c q (fst e))
          (filter (\<lambda>e. fst e \<notin> set ?ks) (entries c))
        = filter (\<lambda>e. \<forall>q\<in>set (p # ps). \<not> matches c q (fst e)) (entries c)"
    by (auto intro: filter_cong)
  with k d i show ?case
    by simp
qed

lemma map_of_filter_key:
  "map_of (filter (\<lambda>e. P (fst e)) xs) k = (if P k then map_of xs k else None)"
  by (induction xs) auto


lemma invalidatePatterns_array:
  assumes "isConnected cs" and "client cs = Some c" and "\<forall>cmd. \<not> rejects c cmd"
  shows "invalidatePatterns (PatArray ps) req cs =
    cs\<lparr>client := Some (c\<lparr>entries :=
               filter (\<lambda>e. \<forall>p\<in>set ps. \<not> matches c p (fst e)) (entries c)\<rparr>)\<rparr>"
  using invalidate_each_reachable [OF assms, of ps]
  by (simp add: invalidatePatterns_def)

lemma invalidatePatterns_array_again:
  assumes "isConnected cs" and "client cs = Some c" and "\<forall>cmd. \<not> rejects c cmd"
  shows "invalidatePatterns (PatArray ps) req (invalidatePatterns (PatArray ps) req cs)
           = invalidatePatterns (PatArray ps) req cs"
proof -
  let ?c1 = "c\<lparr>entries := filter (\<lambda>e. \<forall>p\<in>set ps. \<not> matches c p (fst e)) (entries c)\<rparr>"
  let ?cs1 = "cs\<lparr>client := Some ?c1\<rparr>"
  have 1: "invalidatePatterns (PatArray ps) req cs = ?cs1"
    by (rule invalidatePatterns_array [OF assms])
  have "invalidatePatterns (PatArray ps) req ?cs1 =
      ?cs1\<lparr>client := Some (?c1\<lparr>entries :=
               filter (\<lambda>e. \<forall>p\<in>set ps. \<not> matches ?c1 p (fst e)) (entries ?c1)\<rparr>)\<rparr>"
    by (rule invalidatePatterns_array) (use assms in simp_all)
  also have "\<dots> = ?cs1"
    by simp
  finally show ?thesis
    unfolding 1 .
qed

lemma invalidateCache_array:
  assumes "isConnected cs" and "client cs = Some c" and "\<forall>cmd. \<not> rejects c cmd"
    and "write_succeeded (handler req)"
  shows "snd (invalidateCache (PatArray ps) handler req cs)
           = invalidatePatterns (PatArray ps) req cs"
  using assms(4) invalidatePatterns_array_again [OF assms(1-3), of ps req]
  by (cases "handler req")
     (simp_all add: invalidateCache_def patched_json_def patched_send_def patched_end_def
        write_succeeded_def Let_def)

lemma invalidateServiceCache_state:
  assumes "isConnected cs" and "client cs = Some c" and "\<forall>cmd. \<not> rejects c cmd"
    and "write_succeeded (handler req)"
  shows "snd (invalidateServiceCache handler req cs) =
    cs\<lparr>client := Some (c\<lparr>entries :=
       filter (\<lambda>e. \<not> matches c ''*:services:*'' (fst e)
                    \<and> \<not> matches c ''*:appointments:*'' (fst e)) (entries c)\<rparr>)\<rparr>"
  using invalidateCache_array [where cs = cs and c = c and handler = handler and req = req
      and ps = "[''*:services:*'', ''*:appointments:*'']", OF assms]
    invalidatePatterns_array [OF assms(1-3), of "[''*:services:*'', ''*:appointments:*'']" req]
  by (simp add: invalidateServiceCache_def)

lemma cacheMiddleware_absent_key:
  assumes "CacheService_get cs k = Inr JNull"
    and "(case keyGenerator opts of Some g \<Rightarrow> g rq
          | None \<Rightarrow> Inr (generateDefaultKey rt rq)) = Inr k"
  shows "fst (cacheMiddleware opts rt h rq cs) \<noteq> Hit r"
  using assms
  by (auto simp: cacheMiddleware_def Let_def split: reply.splits option.splits)

text \<open>
  C8. With the store reachable and every command accepted, a write whose reply has
  a status code below 400 makes \<^verbatim>\<open>invalidateServiceCache\<close> run the invalidation
  to its end: the store then holds exactly the entries it held before whose keys
  match neither \<^verbatim>\<open>*:services:*\<close> nor \<^verbatim>\<open>*:appointments:*\<close>, in the same
  order and with the same values. So a key that matches \<^verbatim>\<open>*:services:*\<close> has
  no entry left, whatever was cached under it: \<open>get\<close> resolves to null for it and no
  read through \<^verbatim>\<open>cacheMiddleware\<close> under that key is a hit; and a key that
  matches neither pattern reads as it did before the write.
\<close>

theorem service_invalidation_forces_miss:
  assumes "isConnected cs" and "client cs = Some c" and "\<forall>cmd. \<not> rejects c cmd"
    and "write_succeeded (handler req)"
    and "matches c ''*:services:*'' k"
  shows "snd (invalidateServiceCache handler req cs) =
           cs\<lparr>client := Some (c\<lparr>entries :=
              filter (\<lambda>e. \<not> matches c ''*:services:*'' (fst e)
                           \<and> \<not> matches c ''*:appointments:*'' (fst e)) (entries c)\<rparr>)\<rparr>
    \<and> (\<exists>c'. client (snd (invalidateServiceCache handler req cs)) = Some c'
          \<and> map_of (entries c') k = None)
    \<and> CacheService_get (snd (invalidateServiceCache handler req cs)) k = Inr JNull
    \<and> (\<forall>opts rt h rq r.
          (case keyGenerator opts of Some g \<Rightarrow> g rq
           | None \<Rightarrow> Inr (generateDefaultKey rt rq)) = Inr k \<longrightarrow>
          fst (cacheMiddleware opts rt h rq (snd (invalidateServiceCache handler req cs))) \<noteq> Hit r)
    \<and> (\<forall>k'. \<not> matches c ''*:services:*'' k' \<and> \<not> matches c ''*:appointments:*'' k' \<longrightarrow>
          CacheService_get (snd (invalidateServiceCache handler req cs)) k'
            = CacheService_get cs k')"
proof -
  let ?cs' = "snd (invalidateServiceCache handler req cs)"
  define P where "P = (\<lambda>key. \<not> matches c ''*:services:*'' key
                             \<and> \<not> matches c ''*:appointments:*'' key)"
  define c' where "c' = c\<lparr>entries := filter (\<lambda>e. P (fst e)) (entries c)\<rparr>"
  have st: "?cs' = cs\<lparr>client := Some c'\<rparr>"
    unfolding c'_def P_def using assms(1-4) by (rule invalidateServiceCache_state)
  have "\<not> P k"
    using assms(5) by (simp add: P_def)
  then have gone: "map_of (entries c') k = None"
    by (simp add: c'_def map_of_filter_key)
  have rj: "rejects c' = rejects c"
    by (simp add: c'_def)
  from gone have g: "CacheService_get ?cs' k = Inr JNull"
    using assms(1) by (simp add: st CacheService_get_def client_get_def)
  have kept: "CacheService_get ?cs' k' = CacheService_get cs k'"
    if "\<not> matches c ''*:services:*'' k' \<and> \<not> matches c ''*:appointments:*'' k'" for k'
  proof -
    from that have "P k'"
      by (simp add: P_def)
    then have "map_of (entries c') k' = map_of (entries c) k'"
      by (simp add: c'_def map_of_filter_key)
    then show ?thesis
      using assms(2) by (simp add: st CacheService_get_def client_get_def rj)
  qed
  have c1: "?cs' = cs\<lparr>client := Some (c\<lparr>entries :=
              filter (\<lambda>e. \<not> matches c ''*:services:*'' (fst e)
                           \<and> \<not> matches c ''*:appointments:*'' (fst e)) (entries c)\<rparr>)\<rparr>"
    using assms(1-4) by (rule invalidateServiceCache_state)
  have c2: "\<exists>c'. client ?cs' = Some c' \<and> map_of (entries c') k = None"
    using gone by (simp add: st)
  have c4: "\<forall>opts rt h rq r.
          (case keyGenerator opts of Some g \<Rightarrow> g rq
           | None \<Rightarrow> Inr (generateDefaultKey rt rq)) = Inr k \<longrightarrow>
          fst (cacheMiddleware opts rt h rq ?cs') \<noteq> Hit r"
    using g cacheMiddleware_absent_key by blast
  have c5: "\<forall>k'. \<not> matches c ''*:services:*'' k' \<and> \<not> matches c ''*:appointments:*'' k' \<longrightarrow>
          CacheService_get ?cs' k' = CacheService_get cs k'"
    by (intro allI impI) (rule kept)
  from c1 c2 g c4 c5 show ?thesis
    by (intro conjI)
qed

theorem service_invalidation_forces_miss_witness:
  "isConnected cs_up \<and> client cs_up = Some redis0 \<and> (\<forall>cmd. \<not> rejects redis0 cmd)
   \<and> write_succeeded (write_handler req0)
   \<and> matches redis0 ''*:services:*'' ''development:services:list:page=1''
   \<and> CacheService_get cs_up ''development:services:list:page=1''
        = Inr (JObj [(''success'', JBool True)])
   \<and> CacheService_get (snd (invalidateServiceCache write_handler req0 cs_up))
        ''development:services:list:page=1'' = Inr JNull
   \<and> \<not> matches redis0 ''*:services:*'' ''development:user:42''
   \<and> \<not> matches redis0 ''*:appointments:*'' ''development:user:42''
   \<and> CacheService_get (snd (invalidateServiceCache write_handler req0 cs_up))
        ''development:user:42'' = Inr (JStr ''u'')"
proof -
  have h: "isConnected cs_up" "client cs_up = Some redis0" "\<forall>cmd. \<not> rejects redis0 cmd"
    "write_succeeded (write_handler req0)"
    by (simp_all add: cs_up_def redis0_def write_succeeded_def write_handler_def)
  have m: "matches redis0 ''*:services:*'' ''development:services:list:page=1''"
    by (simp add: redis0_def)
  have n: "\<not> matches redis0 ''*:services:*'' ''development:user:42''
      \<and> \<not> matches redis0 ''*:appointments:*'' ''development:user:42''"
    by (simp add: redis0_def)
  have b: "CacheService_get cs_up ''development:services:list:page=1''
        = Inr (JObj [(''success'', JBool True)])"
    "CacheService_get cs_up ''development:user:42'' = Inr (JStr ''u'')"
    by (simp_all add: cs_up_def redis0_def CacheService_get_def client_get_def)
  note T = service_invalidation_forces_miss [where cs = cs_up and c = redis0
        and handler = write_handler and req = req0
        and k = "''development:services:list:page=1''", OF h m]
  note t3 = T [THEN conjunct2, THEN conjunct2, THEN conjunct1]
  note t5 = T [THEN conjunct2, THEN conjunct2, THEN conjunct2, THEN conjunct2, rule_format, OF n]
  from h m n b t3 t5 show ?thesis
    by simp
qed

section \<open>Properties of the database optimizer\<close>






































end
